theory Spec2Isabelle
  imports Main "HOL-Library.AList"
begin

section \<open>Documents and type tags\<close>

text \<open>
  A document is what \<^verbatim>\<open>json.load\<close> returns: \<^verbatim>\<open>None\<close>, a bool, an int, a float, a str,
  a list or a dict with string keys. A dict keeps its insertion order, so it is an
  association list; the float values are a type parameter, since the program never
  computes with them and only hands them to Python's own \<^verbatim>\<open>float\<close>.
\<close>

datatype 'f json =
    JNull
  | JBool bool
  | JInt int
  | JFloat 'f
  | JStr string
  | JList "'f json list"
  | JDict "(string \<times> 'f json) list"

datatype tytag = TNone | TStr | TInt | TFloat | TBool | TList | TDict

datatype error = JsonPathParserError | PathConflict | AttributeError | SystemExit

text \<open>\<^verbatim>\<open>get_type_from_value\<close>: the Python type of a value.\<close>

fun get_type_from_value :: "'f json \<Rightarrow> tytag" where
  "get_type_from_value JNull = TNone"
| "get_type_from_value (JBool b) = TBool"
| "get_type_from_value (JInt i) = TInt"
| "get_type_from_value (JFloat x) = TFloat"
| "get_type_from_value (JStr s) = TStr"
| "get_type_from_value (JList xs) = TList"
| "get_type_from_value (JDict kvs) = TDict"

section \<open>Python's string functions\<close>

text \<open>
  Characters are code points below 256. \<^verbatim>\<open>int(s)\<close> strips white space (the code points
  9 to 13, 32, 133 and 160; the separators 28 to 31, which \<^verbatim>\<open>str.strip\<close> removes, are
  not white space for \<^verbatim>\<open>int\<close>), reads an optional sign and then decimal digits, where
  single underscores may stand between digits. A text of more than 4300 digits is
  refused (the limit of CPython on the conversion between \<^verbatim>\<open>int\<close> and \<^verbatim>\<open>str\<close>).
  Anything else raises \<^verbatim>\<open>ValueError\<close>, which is \<open>None\<close> here.
\<close>

definition is_digit :: "char \<Rightarrow> bool" where
  "is_digit c = (48 \<le> (of_char c :: nat) \<and> (of_char c :: nat) \<le> 57)"

definition digit_val :: "char \<Rightarrow> nat" where
  "digit_val c = of_char c - 48"


definition is_space :: "char \<Rightarrow> bool" where
  "is_space c = (let n = (of_char c :: nat) in
     (9 \<le> n \<and> n \<le> 13) \<or> n = 32 \<or> n = 133 \<or> n = 160)"

definition int_strip :: "string \<Rightarrow> string" where
  "int_strip s = rev (dropWhile is_space (rev (dropWhile is_space s)))"

definition int_max_str_digits :: nat where
  "int_max_str_digits = 4300"

fun int_digits :: "nat \<Rightarrow> string \<Rightarrow> nat option" where
  "int_digits acc [] = Some acc"
| "int_digits acc (c # cs) =
     (if is_digit c then int_digits (acc * 10 + digit_val c) cs
      else if c = CHR ''_'' then
        (case cs of
           [] \<Rightarrow> None
         | d # ds \<Rightarrow> if is_digit d then int_digits (acc * 10 + digit_val d) ds else None)
      else None)"

definition int_body :: "string \<Rightarrow> nat option" where
  "int_body s = (case s of
       [] \<Rightarrow> None
     | c # cs \<Rightarrow>
         if is_digit c \<and> length (filter is_digit s) \<le> int_max_str_digits
         then int_digits (digit_val c) cs else None)"

definition py_int :: "string \<Rightarrow> int option" where
  "py_int s = (case int_strip s of
       [] \<Rightarrow> None
     | c # cs \<Rightarrow>
         if c = CHR ''-'' then map_option (\<lambda>n. - int n) (int_body cs)
         else if c = CHR ''+'' then map_option int (int_body cs)
         else map_option int (int_body (c # cs)))"





text \<open>
  A character that no text of an int can hold: neither a digit, nor white space, nor a
  sign, nor an underscore.
\<close>

definition numeric_char :: "char \<Rightarrow> bool" where
  "numeric_char c =
     (is_digit c \<or> is_space c \<or> c = CHR ''_'' \<or> c = CHR ''+'' \<or> c = CHR ''-'')"


text \<open>\<^verbatim>\<open>s.lower()\<close>: the letters A to Z, and the capital letters of Latin-1.\<close>

definition lower_char :: "char \<Rightarrow> char" where
  "lower_char c = (let n = (of_char c :: nat) in
     if (65 \<le> n \<and> n \<le> 90) \<or> (192 \<le> n \<and> n \<le> 222 \<and> n \<noteq> 215) then char_of (n + 32) else c)"

definition py_lower :: "string \<Rightarrow> string" where
  "py_lower s = map lower_char s"

section \<open>cast_value\<close>

text \<open>
  \<^verbatim>\<open>float\<close> and \<^verbatim>\<open>json.loads\<close> belong to the Python runtime; they are parameters, with
  \<open>None\<close> for the exception they raise on a text they cannot read.
\<close>

record 'f pylib =
  py_float :: "string \<Rightarrow> 'f option"
  json_loads :: "string \<Rightarrow> 'f json option"

datatype cast_error = ValueError | JSONDecodeError

text \<open>The body of the \<^verbatim>\<open>try\<close> block, branch by branch.\<close>

fun cast_try :: "'f pylib \<Rightarrow> string \<Rightarrow> tytag \<Rightarrow> cast_error + 'f json" where
  "cast_try L v TStr = Inr (JStr v)"
| "cast_try L v TInt = (case py_int v of None \<Rightarrow> Inl ValueError | Some i \<Rightarrow> Inr (JInt i))"
| "cast_try L v TFloat = (case py_float L v of None \<Rightarrow> Inl ValueError | Some x \<Rightarrow> Inr (JFloat x))"
| "cast_try L v TBool = Inr (JBool (py_lower v \<in> set [''true'', ''1'', ''yes'']))"
| "cast_try L v TList =
     (if v \<noteq> [] then (case json_loads L v of None \<Rightarrow> Inl JSONDecodeError | Some j \<Rightarrow> Inr j)
      else Inr (JList []))"
| "cast_try L v TDict =
     (if v \<noteq> [] then (case json_loads L v of None \<Rightarrow> Inl JSONDecodeError | Some j \<Rightarrow> Inr j)
      else Inr (JDict []))"
| "cast_try L v TNone = Inr (JStr v)"

text \<open>\<^verbatim>\<open>cast_value\<close>: the \<^verbatim>\<open>except\<close> clause returns the text untouched.\<close>

definition cast_value :: "'f pylib \<Rightarrow> string \<Rightarrow> tytag \<Rightarrow> 'f json" where
  "cast_value L v target_type =
     (case cast_try L v target_type of Inl e \<Rightarrow> JStr v | Inr j \<Rightarrow> j)"

section \<open>Paths\<close>

text \<open>
  Modelled from the spec: the path evaluator is the library \<^verbatim>\<open>jsonpath_ng\<close>, which is
  not part of the repository. The spec (sections 3, 4.1 and 9) fixes the paths the
  engine uses: a root anchor, dot-separated field names and bracketed integer indices,
  each path addressing one location. \<open>parse_path\<close> reads exactly this grammar, and
  \<open>None\<close> stands for the parser's exception on any other text.
\<close>

datatype step = Fields string | Index int

definition is_alpha :: "char \<Rightarrow> bool" where
  "is_alpha c = (let n = (of_char c :: nat) in (65 \<le> n \<and> n \<le> 90) \<or> (97 \<le> n \<and> n \<le> 122))"

definition name_start :: "char \<Rightarrow> bool" where
  "name_start c = (is_alpha c \<or> c = CHR ''_'')"

definition name_char :: "char \<Rightarrow> bool" where
  "name_char c = (is_alpha c \<or> is_digit c \<or> c = CHR ''_'')"

definition dec_digits :: "string \<Rightarrow> nat option" where
  "dec_digits s =
     (if s \<noteq> [] \<and> list_all is_digit s then Some (foldl (\<lambda>a c. a * 10 + digit_val c) 0 s)
      else None)"

definition index_literal :: "string \<Rightarrow> int option" where
  "index_literal s = (case s of
       [] \<Rightarrow> None
     | c # cs \<Rightarrow> if c = CHR ''-'' then map_option (\<lambda>n. - int n) (dec_digits cs)
                else map_option int (dec_digits s))"

definition field_name :: "string \<Rightarrow> string option" where
  "field_name s = (case takeWhile name_char s of
       [] \<Rightarrow> None
     | c # cs \<Rightarrow> if name_start c \<and> c # cs \<noteq> ''where'' then Some (c # cs) else None)"

definition not_close :: "char \<Rightarrow> bool" where
  "not_close c = (c \<noteq> CHR '']'')"

function parse_steps :: "string \<Rightarrow> step list option" where
  "parse_steps [] = Some []"
| "parse_steps (c # cs) =
     (if c = CHR ''.'' then
        (case field_name cs of
           None \<Rightarrow> None
         | Some name \<Rightarrow> map_option (Cons (Fields name)) (parse_steps (dropWhile name_char cs)))
      else if c = CHR ''['' then
        (case index_literal (takeWhile not_close cs) of
           None \<Rightarrow> None
         | Some i \<Rightarrow>
             (if dropWhile not_close cs = [] then None
              else map_option (Cons (Index i)) (parse_steps (tl (dropWhile not_close cs)))))
      else None)"
  by pat_completeness auto
termination
proof (relation "measure length")
  show "wf (measure (length :: string \<Rightarrow> nat))" by simp
next
  fix c :: char and cs :: string
  show "(dropWhile name_char cs, c # cs) \<in> measure length"
    by (simp add: le_imp_less_Suc length_dropWhile_le)
next
  fix c :: char and cs :: string
  assume "dropWhile not_close cs \<noteq> []"
  moreover have "length (dropWhile not_close cs) \<le> length cs"
    by (rule length_dropWhile_le)
  ultimately show "(tl (dropWhile not_close cs), c # cs) \<in> measure length"
    by (cases "dropWhile not_close cs") auto
qed

definition parse_path :: "string \<Rightarrow> step list option" where
  "parse_path s = (case s of
       [] \<Rightarrow> None
     | c # cs \<Rightarrow>
         if c = CHR ''$'' then parse_steps cs
         else if c = CHR ''['' then parse_steps s
         else parse_steps (CHR ''.'' # s))"

text \<open>
  Modelled from the spec: \<^verbatim>\<open>find\<close> of \<^verbatim>\<open>jsonpath_ng\<close>. A field step matches a key of a
  map; an index step matches a position of a sequence (a negative index counts from
  the end, as Python's own indexing does) or of a string. \<open>None\<close> stands for "no match"
  and for an exception alike: both callers in the source treat them the same way.
\<close>

definition py_slot :: "'a list \<Rightarrow> int \<Rightarrow> nat option" where
  "py_slot xs i =
     (let n = int (length xs) in
      if 0 \<le> i \<and> i < n then Some (nat i)
      else if i < 0 \<and> - n \<le> i then Some (nat (n + i))
      else None)"

fun step_find :: "'f json \<Rightarrow> step \<Rightarrow> 'f json option" where
  "step_find (JDict kvs) (Fields f) = map_of kvs f"
| "step_find (JList xs) (Index i) = map_option (\<lambda>k. xs ! k) (py_slot xs i)"
| "step_find (JStr s) (Index i) = map_option (\<lambda>k. JStr [s ! k]) (py_slot s i)"
| "step_find d st = None"

fun find_path :: "'f json \<Rightarrow> step list \<Rightarrow> 'f json option" where
  "find_path d [] = Some d"
| "find_path d (st # ps) = (case step_find d st of None \<Rightarrow> None | Some c \<Rightarrow> find_path c ps)"

text \<open>\<^verbatim>\<open>get_value_by_path\<close>: the first match, or \<^verbatim>\<open>None\<close>, which is \<open>JNull\<close>.\<close>

definition get_value_by_path :: "'f json \<Rightarrow> string \<Rightarrow> 'f json" where
  "get_value_by_path obj path =
     (case parse_path path of
        None \<Rightarrow> JNull
      | Some ps \<Rightarrow> (case find_path obj ps of None \<Rightarrow> JNull | Some v \<Rightarrow> v))"

text \<open>
  Modelled from the spec: \<^verbatim>\<open>update_or_create\<close> of \<^verbatim>\<open>jsonpath_ng\<close> (spec 4.1, upsert).
  An existing location is overwritten; a missing field is created as an empty map and
  the walk goes on inside it; a sequence that is too short for an index is padded with
  empty maps. A step that does not fit the shape of the value it meets (a field step on
  anything but a map, an index step on anything but a sequence) is the spec's
  PathConflict. The result is the value that the mutated object holds afterwards.
\<close>

definition pad_value :: "'f json list \<Rightarrow> int \<Rightarrow> 'f json list" where
  "pad_value xs i =
     (if int (length xs) \<le> i then xs @ replicate (nat (i - int (length xs) + 1)) (JDict []) else xs)"

fun update_or_create :: "'f json \<Rightarrow> step list \<Rightarrow> 'f json \<Rightarrow> error + 'f json" where
  "update_or_create d [] v = Inr v"
| "update_or_create (JDict kvs) (Fields f # ps) v =
     (case update_or_create (case map_of kvs f of None \<Rightarrow> JDict [] | Some c \<Rightarrow> c) ps v of
        Inl e \<Rightarrow> Inl e
      | Inr c' \<Rightarrow> Inr (JDict (AList.update f c' kvs)))"
| "update_or_create (JList xs) (Index i # ps) v =
     (case py_slot (pad_value xs i) i of
        None \<Rightarrow> Inl PathConflict
      | Some k \<Rightarrow>
          (case update_or_create (pad_value xs i ! k) ps v of
             Inl e \<Rightarrow> Inl e
           | Inr c' \<Rightarrow> Inr (JList ((pad_value xs i)[k := c']))))"
| "update_or_create d (st # ps) v = Inl PathConflict"

text \<open>
  \<^verbatim>\<open>set_value_by_path\<close> parses outside any \<^verbatim>\<open>try\<close> and throws away what
  \<^verbatim>\<open>update_or_create\<close> returns: the object changes only by mutation in place, so a path
  without steps (the root itself) leaves it as it is.
\<close>

definition set_value_by_path :: "'f json \<Rightarrow> string \<Rightarrow> 'f json \<Rightarrow> error + 'f json" where
  "set_value_by_path obj path v =
     (case parse_path path of
        None \<Rightarrow> Inl JsonPathParserError
      | Some [] \<Rightarrow> Inr obj
      | Some (st # ps) \<Rightarrow> update_or_create obj (st # ps) v)"

text \<open>
  \<^verbatim>\<open>remove_value_by_path\<close>. \<open>modify_at\<close> is the mutation in place of the container that
  a path leads to (\<^verbatim>\<open>match.context.value\<close>); \<open>delete_key\<close> is the \<^verbatim>\<open>if / elif / else\<close>
  on the parent and the final key. A match of the root has neither \<^verbatim>\<open>fields\<close> nor
  \<^verbatim>\<open>index\<close>: the \<^verbatim>\<open>AttributeError\<close> is caught and nothing changes.
\<close>

fun modify_at :: "'f json \<Rightarrow> step list \<Rightarrow> ('f json \<Rightarrow> 'f json) \<Rightarrow> 'f json" where
  "modify_at d [] g = g d"
| "modify_at (JDict kvs) (Fields f # ps) g =
     (case map_of kvs f of
        None \<Rightarrow> JDict kvs
      | Some c \<Rightarrow> JDict (AList.update f (modify_at c ps g) kvs))"
| "modify_at (JList xs) (Index i # ps) g =
     (case py_slot xs i of
        None \<Rightarrow> JList xs
      | Some k \<Rightarrow> JList (xs[k := modify_at (xs ! k) ps g]))"
| "modify_at d (st # ps) g = d"

definition del_index :: "'a list \<Rightarrow> int \<Rightarrow> 'a list" where
  "del_index xs i = (case py_slot xs i of None \<Rightarrow> xs | Some k \<Rightarrow> take k xs @ drop (Suc k) xs)"

fun delete_key :: "step \<Rightarrow> 'f json \<Rightarrow> 'f json" where
  "delete_key (Fields f) (JDict kvs) = JDict (AList.delete f kvs)"
| "delete_key (Index i) (JList xs) = JList (del_index xs i)"
| "delete_key final_key parent = parent"

definition remove_value_by_path :: "'f json \<Rightarrow> string \<Rightarrow> 'f json" where
  "remove_value_by_path obj path =
     (case parse_path path of
        None \<Rightarrow> obj
      | Some ps \<Rightarrow>
          (case find_path obj ps of
             None \<Rightarrow> obj
           | Some m \<Rightarrow> if ps = [] then obj else modify_at obj (butlast ps) (delete_key (last ps))))"

section \<open>The table merge\<close>

text \<open>
  A table row maps column names to text; the field mapping maps column names to paths
  and is walked in its own order. \<open>csv_field\<close> is the body of the loop of
  \<^verbatim>\<open>update_from_csv\<close>: the \<^verbatim>\<open>try\<close> covers the branch of an existing value only, so an
  exception of \<^verbatim>\<open>set_value_by_path\<close> is caught there and leaves the loop in the other
  branch.
\<close>

type_synonym row = "(string \<times> string) list"
type_synonym mapping = "(string \<times> string) list"

definition is_container :: "'f json \<Rightarrow> bool" where
  "is_container v = (get_type_from_value v = TList \<or> get_type_from_value v = TDict)"

definition csv_field :: "'f pylib \<Rightarrow> 'f json \<Rightarrow> row \<Rightarrow> string \<times> string \<Rightarrow> error + 'f json" where
  "csv_field L json_obj csv_row m =
     (case m of (csv_key, json_path) \<Rightarrow>
        (case map_of csv_row csv_key of
           None \<Rightarrow> Inr json_obj
         | Some new_value \<Rightarrow>
             if csv_key = ''ID'' then Inr json_obj
             else
               let current_value = get_value_by_path json_obj json_path in
               if current_value \<noteq> JNull then
                 let target_type = get_type_from_value current_value;
                     casted_value = cast_value L new_value target_type
                 in
                   if is_container current_value
                      \<and> get_type_from_value casted_value \<noteq> get_type_from_value current_value
                   then Inr json_obj
                   else (case set_value_by_path json_obj json_path casted_value of
                           Inl e \<Rightarrow> Inr json_obj
                         | Inr obj' \<Rightarrow> Inr obj')
               else set_value_by_path json_obj json_path (cast_value L new_value TStr)))"

fun update_from_csv :: "'f pylib \<Rightarrow> 'f json \<Rightarrow> row \<Rightarrow> mapping \<Rightarrow> error + 'f json" where
  "update_from_csv L json_obj csv_row [] = Inr json_obj"
| "update_from_csv L json_obj csv_row (m # ms) =
     (case csv_field L json_obj csv_row m of
        Inl e \<Rightarrow> Inl e
      | Inr obj' \<Rightarrow> update_from_csv L obj' csv_row ms)"

section \<open>The override merge\<close>

text \<open>
  A directive is an entry of the static configuration: each of its three keys may be
  missing. \<open>static_entry\<close> is the body of the loop of \<^verbatim>\<open>update_from_static_config\<close>,
  which has no \<^verbatim>\<open>try\<close> at all.
\<close>

record 'f directive =
  d_path :: "string option"
  d_operation :: "string option"
  d_value :: "'f json option"

definition static_entry :: "'f json \<Rightarrow> 'f directive \<Rightarrow> error + 'f json" where
  "static_entry json_obj entry =
     (case (d_path entry, d_operation entry) of
        (Some path, Some operation) \<Rightarrow>
          if path = [] \<or> operation = [] then Inr json_obj
          else if operation \<notin> set [''update'', ''remove''] then Inr json_obj
          else if operation = ''update'' then
            (case d_value entry of
               None \<Rightarrow> Inr json_obj
             | Some v \<Rightarrow>
                 let current_value = get_value_by_path json_obj path in
                 if current_value \<noteq> JNull then
                   (if get_type_from_value current_value \<noteq> get_type_from_value v
                    then Inr json_obj
                    else set_value_by_path json_obj path v)
                 else set_value_by_path json_obj path v)
          else Inr (remove_value_by_path json_obj path)
      | _ \<Rightarrow> Inr json_obj)"

fun update_from_static_config :: "'f json \<Rightarrow> 'f directive list \<Rightarrow> error + 'f json" where
  "update_from_static_config json_obj [] = Inr json_obj"
| "update_from_static_config json_obj (entry # es) =
     (case static_entry json_obj entry of
        Inl e \<Rightarrow> Inl e
      | Inr obj' \<Rightarrow> update_from_static_config obj' es)"

section \<open>The run\<close>








section \<open>Notions used to state the properties\<close>

text \<open>
  \<open>fits d ps\<close>: every step of the path meets a value of its own kind in \<open>d\<close>. A field
  step meets a map, where a missing field counts as the empty map that the write
  creates; an index step meets a sequence, padded with empty maps when it is too short,
  and a negative index stays within the sequence.
\<close>

fun fits :: "'f json \<Rightarrow> step list \<Rightarrow> bool" where
  "fits d [] = True"
| "fits (JDict kvs) (Fields f # ps) =
     fits (case map_of kvs f of None \<Rightarrow> JDict [] | Some c \<Rightarrow> c) ps"
| "fits (JList xs) (Index i # ps) =
     (case py_slot (pad_value xs i) i of
        None \<Rightarrow> False
      | Some k \<Rightarrow> fits (pad_value xs i ! k) ps)"
| "fits d (st # ps) = False"

fun is_field :: "step \<Rightarrow> bool" where
  "is_field (Fields f) = True"
| "is_field (Index i) = False"





section \<open>Floats that are not numbers\<close>





section \<open>A library instance for closed examples\<close>

text \<open>
  The examples below need some value for the two library functions. This instance
  answers as Python does on the texts the examples use: \<^verbatim>\<open>0.5\<close> is a float, \<^verbatim>\<open>[]\<close> and
  \<^verbatim>\<open>{}\<close> are the empty containers, and it rejects every other text.
\<close>

definition sample_lib :: "unit pylib" where
  "sample_lib =
     \<lparr>py_float = (\<lambda>s. if s = ''0.5'' then Some () else None),
      json_loads = (\<lambda>s. if s = ''[]'' then Some (JList [])
                         else if s = ''{}'' then Some (JDict []) else None)\<rparr>"

section \<open>Verified properties\<close>

subsection \<open>Integers and their decimal text\<close>



















lemma dropWhile_mem: "x \<in> set xs \<Longrightarrow> \<not> P x \<Longrightarrow> x \<in> set (dropWhile P xs)"
  by (induction xs) auto

lemma int_strip_mem: "c \<in> set s \<Longrightarrow> \<not> is_space c \<Longrightarrow> c \<in> set (int_strip s)"
  by (simp add: int_strip_def dropWhile_mem)

lemma int_digits_chars:
  "int_digits acc cs = Some n \<Longrightarrow> c \<in> set cs \<Longrightarrow> is_digit c \<or> c = CHR ''_''"
  by (induction acc cs rule: int_digits.induct) (auto split: if_splits list.splits)

lemma int_body_chars:
  "int_body s = Some n \<Longrightarrow> c \<in> set s \<Longrightarrow> is_digit c \<or> c = CHR ''_''"
  by (cases s) (auto simp: int_body_def split: if_splits dest: int_digits_chars)

lemma py_int_chars:
  assumes "py_int s = Some i" "c \<in> set s"
  shows "numeric_char c"
proof (cases "is_space c")
  case True
  then show ?thesis by (simp add: numeric_char_def)
next
  case False
  with assms(2) have m: "c \<in> set (int_strip s)" by (simp add: int_strip_mem)
  then obtain d ds where s: "int_strip s = d # ds" by (cases "int_strip s") auto
  from assms(1) s m show ?thesis
    by (auto simp: py_int_def numeric_char_def split: if_splits dest: int_body_chars)
qed

lemma py_int_non_numeric: "c \<in> set s \<Longrightarrow> \<not> numeric_char c \<Longrightarrow> py_int s = None"
  using py_int_chars [of s _ c] by (cases "py_int s") auto



lemma py_int_abc: "py_int ''abc'' = None"
  by code_simp

lemma py_int_9: "py_int ''9'' = Some 9"
  by code_simp

lemma py_int_separator: "py_int [CHR 0x1C, CHR ''5''] = None"
  by code_simp


subsection \<open>Casting\<close>




text \<open>
  Claim C9. \<^verbatim>\<open>cast_value\<close> returns a value for every text and every target type: whenever
  the body of its \<^verbatim>\<open>try\<close> fails, the result is the text itself. So a text that \<^verbatim>\<open>int\<close>
  cannot read comes back unchanged, and every text with a character that is neither a
  digit, white space, a sign nor an underscore is such a text; so does a text that
  \<^verbatim>\<open>float\<close> cannot read, and a non-empty text that \<^verbatim>\<open>json.loads\<close> cannot read; the empty
  text cast to a list or a map is the empty list or the empty map.
\<close>

theorem cast_value_fail_soft:
  "(cast_try L s t = Inl e \<longrightarrow> cast_value L s t = JStr s)
   \<and> (py_int s = None \<longrightarrow> cast_value L s TInt = JStr s)
   \<and> ((\<exists>c \<in> set s. \<not> numeric_char c) \<longrightarrow> cast_value L s TInt = JStr s)
   \<and> (py_float L s = None \<longrightarrow> cast_value L s TFloat = JStr s)
   \<and> (s \<noteq> [] \<and> json_loads L s = None \<longrightarrow>
        cast_value L s TList = JStr s \<and> cast_value L s TDict = JStr s)
   \<and> cast_value L [] TList = JList []
   \<and> cast_value L [] TDict = JDict []"
  by (auto simp: cast_value_def py_int_non_numeric)

theorem cast_value_fail_soft_witness:
  "cast_try sample_lib ''abc'' TInt = Inl ValueError
   \<and> py_int ''abc'' = None
   \<and> (\<exists>c \<in> set ''abc''. \<not> numeric_char c)
   \<and> py_float sample_lib ''abc'' = None
   \<and> ''abc'' \<noteq> [] \<and> json_loads sample_lib ''abc'' = None
   \<and> cast_value sample_lib ''abc'' TInt = JStr ''abc''
   \<and> cast_value sample_lib ''abc'' TFloat = JStr ''abc''
   \<and> cast_value sample_lib ''abc'' TList = JStr ''abc''
   \<and> cast_value sample_lib ''abc'' TDict = JStr ''abc''
   \<and> cast_value sample_lib [CHR 0x1C, CHR ''5''] TInt = JStr [CHR 0x1C, CHR ''5'']"
proof -
  have n: "\<exists>c \<in> set ''abc''. \<not> numeric_char c"
    by (simp add: numeric_char_def is_digit_def is_space_def)
  have sep: "cast_value sample_lib [CHR 0x1C, CHR ''5''] TInt = JStr [CHR 0x1C, CHR ''5'']"
    by (simp add: cast_value_def py_int_separator)
  from cast_value_fail_soft [of sample_lib "''abc''" TInt ValueError] n sep
  show ?thesis by (simp add: sample_lib_def py_int_abc)
qed

subsection \<open>Paths: reading after writing\<close>

lemma parse_count: "parse_path ''$.count'' = Some [Fields ''count'']"
  by code_simp

lemma parse_flag: "parse_path ''$.flag'' = Some [Fields ''flag'']"
  by code_simp

lemma parse_path_nonempty: "parse_path p = Some ps \<Longrightarrow> p \<noteq> []"
  by (auto simp: parse_path_def)

lemma py_slot_bound: "py_slot xs i = Some k \<Longrightarrow> k < length xs"
  by (auto simp: py_slot_def Let_def split: if_splits)

lemma py_slot_list_update: "py_slot (xs[k := c]) i = py_slot xs i"
  by (simp add: py_slot_def)

lemma pad_value_slot: "py_slot xs i = Some k \<Longrightarrow> pad_value xs i = xs"
  by (auto simp: py_slot_def pad_value_def Let_def split: if_splits)

lemma map_of_update_same: "map_of (AList.update f c kvs) f = Some c"
  by (simp add: update_conv')

lemma update_then_find: "update_or_create d ps v = Inr d' \<Longrightarrow> find_path d' ps = Some v"
proof (induction d ps v arbitrary: d' rule: update_or_create.induct)
  case (1 d v)
  then show ?case by simp
next
  case (2 kvs f ps v)
  let ?c = "case map_of kvs f of None \<Rightarrow> JDict [] | Some c \<Rightarrow> c"
  from "2.prems" obtain c' where c': "update_or_create ?c ps v = Inr c'"
    and d': "d' = JDict (AList.update f c' kvs)"
    by (auto split: sum.splits)
  from "2.IH" [OF c'] have "find_path c' ps = Some v" .
  with d' show ?case by (simp add: map_of_update_same)
next
  case (3 xs i ps v)
  let ?ys = "pad_value xs i"
  from "3.prems" obtain k c' where k: "py_slot ?ys i = Some k"
    and c': "update_or_create (?ys ! k) ps v = Inr c'"
    and d': "d' = JList (?ys[k := c'])"
    by (auto split: sum.splits option.splits)
  from "3.IH" [OF k c'] have f: "find_path c' ps = Some v" .
  from k have "k < length ?ys" by (rule py_slot_bound)
  with d' k f show ?case by (simp add: py_slot_list_update)
qed simp_all

lemma step_find_string: "step_find (JStr s) st = Some c \<Longrightarrow> \<exists>t. c = JStr t"
  by (cases st) auto

lemma find_in_string: "find_path (JStr s) ps = Some c \<Longrightarrow> \<exists>t. c = JStr t"
proof (induction ps arbitrary: s)
  case Nil
  then show ?case by auto
next
  case (Cons st ps)
  then show ?case by (auto split: option.splits dest!: step_find_string)
qed

lemma find_null_not_string: "step_find (JStr s) st = Some c \<Longrightarrow> find_path c ps \<noteq> Some JNull"
  using find_in_string step_find_string by fastforce

lemma update_null_ok: "find_path d ps = Some JNull \<Longrightarrow> \<exists>d'. update_or_create d ps v = Inr d'"
proof (induction d ps v rule: update_or_create.induct)
  case (1 d v)
  then show ?case by simp
next
  case (2 kvs f ps v)
  then show ?case by (auto split: option.splits)
next
  case (3 xs i ps v)
  then show ?case by (auto simp: pad_value_slot split: option.splits)
qed (auto split: option.splits dest: find_null_not_string dest!: find_in_string)

lemma parse_a: "parse_path ''$.a'' = Some [Fields ''a'']"
  by code_simp

subsection \<open>Scenarios and type checks of the two merges\<close>

text \<open>
  Claim C3 (scenario A). The table merge of the row \<^verbatim>\<open>{"ID":"1","count":"9"}\<close> with the
  mapping \<^verbatim>\<open>{"count":"$.count"}\<close> into the document \<^verbatim>\<open>{"id":"1","count":5}\<close> gives
  exactly \<^verbatim>\<open>{"id":"1","count":9}\<close>: the text is cast to the int 9, the type of the field
  that is there, and is not stored as a string. This holds whatever the library
  functions \<open>L\<close> are.
\<close>

theorem scenario_A_count_cast_to_int:
  "update_from_csv L (JDict [(''id'', JStr ''1''), (''count'', JInt 5)])
     [(''ID'', ''1''), (''count'', ''9'')] [(''count'', ''$.count'')]
   = Inr (JDict [(''id'', JStr ''1''), (''count'', JInt 9)])"
  by (simp add: csv_field_def get_value_by_path_def set_value_by_path_def parse_count
      cast_value_def py_int_9 is_container_def)

text \<open>
  Claim C4. An update directive whose path has a value that is not null, of a type
  other than the type of the directive's value, is skipped: the document stays as it
  is. Scenario C is the witness: the directive \<^verbatim>\<open>$.flag := true\<close> on \<^verbatim>\<open>{"flag":"yes"}\<close>.
\<close>

theorem update_type_mismatch_skipped:
  assumes "d_path entry = Some path" "d_operation entry = Some ''update''"
    and "d_value entry = Some v"
    and "get_value_by_path obj path \<noteq> JNull"
    and "get_type_from_value (get_value_by_path obj path) \<noteq> get_type_from_value v"
  shows "static_entry obj entry = Inr obj \<and> update_from_static_config obj [entry] = Inr obj"
  using assms by (simp add: static_entry_def)

theorem update_type_mismatch_skipped_witness:
  "get_value_by_path (JDict [(''flag'', JStr ''yes'')] :: unit json) ''$.flag'' = JStr ''yes''
   \<and> update_from_static_config (JDict [(''flag'', JStr ''yes'')] :: unit json)
       [\<lparr>d_path = Some ''$.flag'', d_operation = Some ''update'', d_value = Some (JBool True)\<rparr>]
     = Inr (JDict [(''flag'', JStr ''yes'')])"
proof -
  let ?e = "\<lparr>d_path = Some ''$.flag'', d_operation = Some ''update'',
             d_value = Some (JBool True :: unit json)\<rparr>"
  let ?d = "JDict [(''flag'', JStr ''yes'')] :: unit json"
  have g: "get_value_by_path ?d ''$.flag'' = JStr ''yes''"
    by (simp add: get_value_by_path_def parse_flag)
  have "static_entry ?d ?e = Inr ?d \<and> update_from_static_config ?d [?e] = Inr ?d"
    by (rule update_type_mismatch_skipped [where path = "''$.flag''" and v = "JBool True"])
      (simp_all add: g)
  with g show ?thesis by blast
qed

text \<open>
  Claim C10. Where the value at a path is JSON null, \<^verbatim>\<open>get_value_by_path\<close> returns
  \<^verbatim>\<open>None\<close>, as it does for a path that is not there, and both merges take the branch
  that creates: the table merge writes the text of the row as a string, the override
  update writes the value of the directive as it is, with no comparison of types, and
  the write succeeds, so the null is replaced.
\<close>

theorem null_leaf_not_protected:
  assumes "parse_path p = Some ps" "find_path obj ps = Some JNull"
  shows "get_value_by_path obj p = JNull
    \<and> (map_of r k = Some s \<and> k \<noteq> ''ID'' \<longrightarrow>
         update_from_csv L obj r [(k, p)] = set_value_by_path obj p (JStr s))
    \<and> update_from_static_config obj
         [\<lparr>d_path = Some p, d_operation = Some ''update'', d_value = Some v\<rparr>]
       = set_value_by_path obj p v
    \<and> (ps \<noteq> [] \<longrightarrow> (\<exists>obj'. set_value_by_path obj p v = Inr obj' \<and> get_value_by_path obj' p = v))"
proof -
  have g: "get_value_by_path obj p = JNull"
    using assms by (simp add: get_value_by_path_def)
  have ne: "p \<noteq> []" using assms(1) by (rule parse_path_nonempty)
  have c: "map_of r k = Some s \<and> k \<noteq> ''ID'' \<longrightarrow>
         update_from_csv L obj r [(k, p)] = set_value_by_path obj p (JStr s)"
    using g by (auto simp: csv_field_def cast_value_def split: sum.splits)
  have st: "update_from_static_config obj
         [\<lparr>d_path = Some p, d_operation = Some ''update'', d_value = Some v\<rparr>]
       = set_value_by_path obj p v"
    using g ne by (auto simp: static_entry_def split: sum.splits)
  have rt: "\<exists>obj'. set_value_by_path obj p v = Inr obj' \<and> get_value_by_path obj' p = v"
    if "ps \<noteq> []"
  proof -
    obtain d' where d': "update_or_create obj ps v = Inr d'"
      using update_null_ok [OF assms(2)] by blast
    then have "find_path d' ps = Some v" by (rule update_then_find)
    with d' that assms(1) show ?thesis
      by (cases ps) (simp_all add: set_value_by_path_def get_value_by_path_def)
  qed
  from g c st rt show ?thesis by blast
qed

theorem null_leaf_not_protected_witness:
  "parse_path ''$.a'' = Some [Fields ''a'']
   \<and> find_path (JDict [(''a'', JNull)] :: unit json) [Fields ''a''] = Some JNull
   \<and> get_value_by_path (JDict [(''a'', JNull)] :: unit json) ''$.a'' = JNull
   \<and> update_from_csv sample_lib (JDict [(''a'', JNull)]) [(''col'', ''7'')] [(''col'', ''$.a'')]
       = Inr (JDict [(''a'', JStr ''7'')])
   \<and> update_from_static_config (JDict [(''a'', JNull)] :: unit json)
       [\<lparr>d_path = Some ''$.a'', d_operation = Some ''update'', d_value = Some (JInt 7)\<rparr>]
       = Inr (JDict [(''a'', JInt 7)])"
proof -
  let ?d = "JDict [(''a'', JNull)] :: unit json"
  have f: "find_path ?d [Fields ''a''] = Some JNull" by simp
  have s1: "set_value_by_path ?d ''$.a'' (JStr ''7'') = Inr (JDict [(''a'', JStr ''7'')])"
    and s2: "set_value_by_path ?d ''$.a'' (JInt 7) = Inr (JDict [(''a'', JInt 7)])"
    by (simp_all add: set_value_by_path_def parse_a)
  from null_leaf_not_protected [OF parse_a f, of "[(''col'', ''7'')]" "''col''" "''7''" sample_lib "JInt 7"]
    null_leaf_not_protected [OF parse_a f, of "[(''col'', ''7'')]" "''col''" "''7''" sample_lib "JStr ''7''"]
  show ?thesis
    by (simp add: parse_a s1 s2)
qed

subsection \<open>Writing, then reading\<close>

lemma fits_update_ok: "fits d ps \<Longrightarrow> \<exists>d'. update_or_create d ps v = Inr d'"
proof (induction d ps v rule: update_or_create.induct)
  case (1 d v)
  then show ?case by simp
next
  case (2 kvs f ps v)
  then show ?case by auto
next
  case (3 xs i ps v)
  then show ?case by (auto split: option.splits)
qed simp_all

lemma parse_a_b: "parse_path ''$.a.b'' = Some [Fields ''a'', Fields ''b'']"
  by code_simp

lemma parse_root: "parse_path ''$'' = Some []"
  by code_simp

lemma parse_a_0: "parse_path ''$.a[0]'' = Some [Fields ''a'', Index 0]"
  by code_simp

lemma parse_a_2_b: "parse_path ''$.a[2].b'' = Some [Fields ''a'', Index 2, Fields ''b'']"
  by code_simp

text \<open>
  Claim C7, as amended. For every path of one step or more: whenever the write returns
  normally, reading the path gives the value written, also when maps had to be created
  or a sequence had to be padded on the way; and the write does return normally
  whenever the steps of the path fit the document (\<open>fits\<close>). The claim as the spec
  words it fails for the path of the root alone, where the write changes nothing, and
  for a path that meets a value of another kind, where the write raises.
\<close>

theorem upsert_then_resolve:
  assumes "parse_path p = Some ps" "ps \<noteq> []"
  shows "(\<forall>d'. set_value_by_path d p v = Inr d' \<longrightarrow> get_value_by_path d' p = v)
     \<and> (fits d ps \<longrightarrow> (\<exists>d'. set_value_by_path d p v = Inr d'))"
proof -
  from assms have s: "set_value_by_path d p v = update_or_create d ps v"
    by (cases ps) (simp_all add: set_value_by_path_def)
  have "get_value_by_path d' p = v" if "set_value_by_path d p v = Inr d'" for d'
  proof -
    from that s have "find_path d' ps = Some v" by (simp add: update_then_find)
    with assms(1) show ?thesis by (simp add: get_value_by_path_def)
  qed
  moreover have "\<exists>d'. set_value_by_path d p v = Inr d'" if "fits d ps"
    using fits_update_ok [OF that] s by simp
  ultimately show ?thesis by blast
qed

theorem upsert_then_resolve_witness:
  "parse_path ''$.a[2].b'' = Some [Fields ''a'', Index 2, Fields ''b'']
   \<and> fits (JDict [(''a'', JList [])] :: unit json) [Fields ''a'', Index 2, Fields ''b'']
   \<and> set_value_by_path (JDict [(''a'', JList [])] :: unit json) ''$.a[2].b'' (JInt 5)
       = Inr (JDict [(''a'', JList [JDict [], JDict [], JDict [(''b'', JInt 5)]])])
   \<and> get_value_by_path
        (JDict [(''a'', JList [JDict [], JDict [], JDict [(''b'', JInt 5)]])] :: unit json)
        ''$.a[2].b'' = JInt 5"
proof -
  let ?d = "JDict [(''a'', JList [])] :: unit json"
  have f: "fits ?d [Fields ''a'', Index 2, Fields ''b'']"
    by (simp add: pad_value_def py_slot_def)
  have s: "set_value_by_path ?d ''$.a[2].b'' (JInt 5)
       = Inr (JDict [(''a'', JList [JDict [], JDict [], JDict [(''b'', JInt 5)]])])"
    by (simp add: set_value_by_path_def parse_a_2_b pad_value_def py_slot_def numeral_3_eq_3)
  from upsert_then_resolve [OF parse_a_2_b, of ?d "JInt 5"] s f
  show ?thesis by (simp add: parse_a_2_b)
qed

theorem upsert_then_resolve_counterexample:
  "set_value_by_path (JDict [(''a'', JInt 1)] :: unit json) ''$'' (JInt 5)
     = Inr (JDict [(''a'', JInt 1)])
   \<and> get_value_by_path (JDict [(''a'', JInt 1)] :: unit json) ''$'' = JDict [(''a'', JInt 1)]
   \<and> get_value_by_path (JDict [(''a'', JInt 1)] :: unit json) ''$'' \<noteq> JInt 5
   \<and> set_value_by_path (JDict [(''a'', JInt 1)] :: unit json) ''$.a.b'' (JInt 5)
     = Inl PathConflict"
  by (simp add: set_value_by_path_def get_value_by_path_def parse_root parse_a_b)

subsection \<open>Removing, then reading\<close>

lemma string_no_field: "find_path (JStr s) (ps @ [Fields f]) = None"
proof (induction ps arbitrary: s)
  case Nil
  show ?case by simp
next
  case (Cons st ps)
  show ?case by (cases st) (auto simp: Cons.IH split: option.splits)
qed

lemma step_string_no_field:
  "step_find (JStr s) st = Some x \<Longrightarrow> find_path x (ps @ [Fields f]) = None"
  using step_find_string [of s st x] string_no_field [of _ ps f] by auto

lemma map_of_delete_same: "map_of (AList.delete f kvs) f = None"
  by (simp add: delete_conv')

lemma find_after_delete:
  "find_path d (qs @ [Fields f]) = Some m \<Longrightarrow>
   find_path (modify_at d qs (delete_key (Fields f))) (qs @ [Fields f]) = None"
proof (induction d qs "delete_key (Fields f) :: 'a json \<Rightarrow> 'a json" arbitrary: m rule: modify_at.induct)
  case (1 d)
  then show ?case by (cases d) (simp_all add: map_of_delete_same)
next
  case (2 kvs g ps)
  then show ?case by (auto simp: map_of_update_same split: option.splits)
next
  case (3 xs i ps)
  then show ?case
    by (auto simp: py_slot_list_update py_slot_bound split: option.splits)
qed (auto simp: string_no_field step_string_no_field split: option.splits)


text \<open>
  Claim C6, as amended. Removing at a path that has no match changes nothing. For a
  path that ends in a field step, reading after the removal finds nothing, and a second
  removal changes nothing. A path that ends in an index step is left out: deleting a
  position of a sequence moves the next element into it, so the read finds that
  element and a second removal deletes it as well; the path of the root alone is never
  removed.
\<close>

theorem remove_then_resolve:
  assumes "parse_path p = Some ps"
  shows "(find_path d ps = None \<longrightarrow> remove_value_by_path d p = d)
    \<and> (ps \<noteq> [] \<and> is_field (last ps) \<longrightarrow>
         get_value_by_path (remove_value_by_path d p) p = JNull
         \<and> remove_value_by_path (remove_value_by_path d p) p = remove_value_by_path d p)"
proof -
  have noop: "remove_value_by_path d' p = d'" if "find_path d' ps = None" for d' :: "'a json"
    using that assms by (simp add: remove_value_by_path_def)
  have gone: "find_path (remove_value_by_path d p) ps = None"
    if ne: "ps \<noteq> []" and fld: "is_field (last ps)"
  proof (cases "find_path d ps")
    case None
    with noop show ?thesis by simp
  next
    case (Some m)
    from fld obtain f where f: "last ps = Fields f" by (cases "last ps") auto
    with ne have ps: "ps = butlast ps @ [Fields f]" by (metis append_butlast_last_id)
    from Some ps have "find_path d (butlast ps @ [Fields f]) = Some m" by simp
    then have "find_path (modify_at d (butlast ps) (delete_key (Fields f))) (butlast ps @ [Fields f]) = None"
      by (rule find_after_delete)
    with ps have "find_path (modify_at d (butlast ps) (delete_key (last ps))) ps = None"
      using f by simp
    with Some ne assms show ?thesis by (simp add: remove_value_by_path_def)
  qed
  have "get_value_by_path (remove_value_by_path d p) p = JNull
      \<and> remove_value_by_path (remove_value_by_path d p) p = remove_value_by_path d p"
    if "ps \<noteq> []" "is_field (last ps)"
    using gone [OF that] noop assms by (simp add: get_value_by_path_def)
  with noop show ?thesis by blast
qed

theorem remove_then_resolve_witness:
  "parse_path ''$.a.b'' = Some [Fields ''a'', Fields ''b'']
   \<and> remove_value_by_path (JDict [(''a'', JDict [(''b'', JInt 1), (''c'', JInt 2)])] :: unit json) ''$.a.b''
       = JDict [(''a'', JDict [(''c'', JInt 2)])]
   \<and> get_value_by_path (JDict [(''a'', JDict [(''c'', JInt 2)])] :: unit json) ''$.a.b'' = JNull
   \<and> remove_value_by_path (JDict [(''a'', JDict [(''c'', JInt 2)])] :: unit json) ''$.a.b''
       = JDict [(''a'', JDict [(''c'', JInt 2)])]"
proof -
  let ?d = "JDict [(''a'', JDict [(''b'', JInt 1), (''c'', JInt 2)])] :: unit json"
  have r: "remove_value_by_path ?d ''$.a.b'' = JDict [(''a'', JDict [(''c'', JInt 2)])]"
    by (simp add: remove_value_by_path_def parse_a_b)
  from remove_then_resolve [OF parse_a_b, of ?d] r show ?thesis
    by (simp add: parse_a_b)
qed

theorem remove_then_resolve_counterexample:
  "remove_value_by_path (JDict [(''a'', JList [JInt 1, JInt 2])] :: unit json) ''$.a[0]''
     = JDict [(''a'', JList [JInt 2])]
   \<and> get_value_by_path
        (remove_value_by_path (JDict [(''a'', JList [JInt 1, JInt 2])] :: unit json) ''$.a[0]'')
        ''$.a[0]'' = JInt 2
   \<and> remove_value_by_path
        (remove_value_by_path (JDict [(''a'', JList [JInt 1, JInt 2])] :: unit json) ''$.a[0]'')
        ''$.a[0]'' = JDict [(''a'', JList [])]
   \<and> get_value_by_path (remove_value_by_path (JDict [(''a'', JInt 1)] :: unit json) ''$'') ''$''
     = JDict [(''a'', JInt 1)]"
  by (simp add: remove_value_by_path_def get_value_by_path_def parse_a_0 parse_root py_slot_def
      del_index_def)

subsection \<open>The table merge keeps the type of a field\<close>



















subsection \<open>What makes the run fail\<close>

















subsection \<open>The list branch\<close>









end
